theory Spec2Isabelle
  imports Complex_Main "HOL-Library.Log_Nat"
begin

section \<open>Futures position sizer (app.py)\<close>

text \<open>
  A shallow embedding of the calculation in \<^verbatim>\<open>app.py\<close>: the function
  \<^verbatim>\<open>calculate_position_size\<close>, the derived quantities \<^verbatim>\<open>actual_risk\<close> and
  \<^verbatim>\<open>risk_pct\<close>, the safety warning chain and the profit scenario loop.

  Numbers. A Python \<^verbatim>\<open>float\<close> is an IEEE binary64 value: a finite double, an infinity
  or NaN. A finite double is modelled by the rational number it denotes, and every
  operation of the source rounds its exact result to the nearest double, ties to even,
  as the hardware does. Python's \<^verbatim>\<open>int\<close> values (the contract count, the reward
  multiples) are \<^typ>\<open>int\<close>; an \<^verbatim>\<open>int\<close> meeting a \<^verbatim>\<open>float\<close> in a product is
  first converted to a \<^verbatim>\<open>float\<close>, as Python does.

  Errors. The exceptions the source can raise are values of the model:
  \<^verbatim>\<open>ZeroDivisionError\<close> from \<^verbatim>\<open>/\<close>, \<^verbatim>\<open>OverflowError\<close> from \<^verbatim>\<open>math.floor\<close>
  of an infinity and from converting an \<^verbatim>\<open>int\<close> too large for a \<^verbatim>\<open>float\<close>, and
  \<^verbatim>\<open>ValueError\<close> from \<^verbatim>\<open>math.floor\<close> of NaN.
\<close>

subsection \<open>Python floats\<close>

datatype py_error = ZeroDivisionError | OverflowError | ValueError

text \<open>
  \<open>Finite q\<close> is the double whose value is \<open>q\<close>. The two zeros of binary64 are
  the one value \<open>Finite 0\<close>: the source cannot tell them apart (they compare equal,
  division by either raises, \<^verbatim>\<open>math.floor\<close> of either is 0).
\<close>

datatype pyfloat = Finite rat | PInf | NInf | NaN

text \<open>Rounding to the nearest integer, a tie going to the even one.\<close>

definition round_half_even :: "rat \<Rightarrow> int" where
  "round_half_even x =
     (let n = \<lfloor>x\<rfloor>; d = x - of_int n
      in if d < 1 / 2 then n
         else if 1 / 2 < d then n + 1
         else if even n then n else n + 1)"

definition pow2 :: "int \<Rightarrow> rat" where
  "pow2 e = (if 0 \<le> e then 2 ^ nat e else 1 / 2 ^ nat (- e))"

text \<open>The exponent of a positive number: \<open>pow2 (ilog2 x) \<le> x < pow2 (ilog2 x + 1)\<close>.\<close>

definition ilog2 :: "rat \<Rightarrow> int" where
  "ilog2 x = (if 1 \<le> x then bitlen \<lfloor>x\<rfloor> - 1 else - bitlen (\<lceil>1 / x\<rceil> - 1))"

text \<open>
  The doubles around \<open>x\<close> are the multiples of \<open>ulp x\<close>: 53 significant bits in the
  binade of \<open>x\<close>, and the fixed spacing \<open>pow2 (- 1074)\<close> of the subnormal numbers below
  \<open>pow2 (- 1022)\<close>. \<open>nearest x\<close> is the multiple nearest to \<open>x\<close>; a result of
  magnitude \<open>pow2 1024\<close> or more is beyond the largest double and becomes an infinity.
\<close>

definition binade :: "rat \<Rightarrow> int" where
  "binade x = max (ilog2 \<bar>x\<bar>) (- 1022)"

definition ulp :: "rat \<Rightarrow> rat" where
  "ulp x = pow2 (binade x - 52)"

definition nearest :: "rat \<Rightarrow> rat" where
  "nearest x = of_int (round_half_even (x / ulp x)) * ulp x"

definition round64 :: "rat \<Rightarrow> pyfloat" where
  "round64 x =
     (if x = 0 then Finite 0
      else if pow2 1024 \<le> \<bar>nearest x\<bar> then (if 0 < x then PInf else NInf)
      else Finite (nearest x))"

text \<open>A number is representable when it is a double: rounding leaves it as it is.\<close>

definition representable :: "rat \<Rightarrow> bool" where
  "representable x = (round64 x = Finite x)"

text \<open>Comparison: every comparison with NaN is false.\<close>

fun flt :: "pyfloat \<Rightarrow> pyfloat \<Rightarrow> bool" where
  "flt (Finite a) (Finite b) = (a < b)"
| "flt (Finite a) PInf = True"
| "flt NInf (Finite b) = True"
| "flt NInf PInf = True"
| "flt x y = False"

fun fle :: "pyfloat \<Rightarrow> pyfloat \<Rightarrow> bool" where
  "fle (Finite a) (Finite b) = (a \<le> b)"
| "fle (Finite a) PInf = True"
| "fle NInf (Finite b) = True"
| "fle NInf PInf = True"
| "fle PInf PInf = True"
| "fle NInf NInf = True"
| "fle x y = False"

definition fgt :: "pyfloat \<Rightarrow> pyfloat \<Rightarrow> bool" where
  "fgt x y = flt y x"

fun fsign :: "pyfloat \<Rightarrow> int" where
  "fsign (Finite a) = (if a < 0 then - 1 else if a = 0 then 0 else 1)"
| "fsign PInf = 1"
| "fsign NInf = - 1"
| "fsign NaN = 0"

text \<open>
  \<^verbatim>\<open>x * y\<close> on floats: the rounded product of two finite numbers; an infinity times
  zero is NaN, otherwise an infinity with the product of the signs.
\<close>

fun fmul :: "pyfloat \<Rightarrow> pyfloat \<Rightarrow> pyfloat" where
  "fmul (Finite a) (Finite b) = round64 (a * b)"
| "fmul NaN y = NaN"
| "fmul x NaN = NaN"
| "fmul x y =
     (if fsign x * fsign y = 0 then NaN
      else if 0 < fsign x * fsign y then PInf else NInf)"

text \<open>
  \<^verbatim>\<open>x / y\<close> on floats: Python raises \<^verbatim>\<open>ZeroDivisionError\<close> when the divisor is
  zero, whatever the dividend; otherwise the IEEE quotient.
\<close>

fun fdiv :: "pyfloat \<Rightarrow> pyfloat \<Rightarrow> pyfloat" where
  "fdiv (Finite a) (Finite b) = round64 (a / b)"
| "fdiv NaN y = NaN"
| "fdiv x NaN = NaN"
| "fdiv (Finite a) y = Finite 0"
| "fdiv x (Finite b) = (if 0 < fsign x * fsign (Finite b) then PInf else NInf)"
| "fdiv x y = NaN"

definition py_truediv :: "pyfloat \<Rightarrow> pyfloat \<Rightarrow> py_error + pyfloat" where
  "py_truediv x y = (if y = Finite 0 then Inl ZeroDivisionError else Inr (fdiv x y))"

text \<open>\<^verbatim>\<open>math.floor\<close>: an \<^verbatim>\<open>int\<close> for a finite float, an exception otherwise.\<close>

fun math_floor :: "pyfloat \<Rightarrow> py_error + int" where
  "math_floor (Finite a) = Inr \<lfloor>a\<rfloor>"
| "math_floor NaN = Inl ValueError"
| "math_floor x = Inl OverflowError"

text \<open>
  The conversion of an \<^verbatim>\<open>int\<close> operand to \<^verbatim>\<open>float\<close>: correctly rounded, and an
  \<^verbatim>\<open>OverflowError\<close> where the result would not be finite.
\<close>

definition float_of_int :: "int \<Rightarrow> py_error + pyfloat" where
  "float_of_int n =
     (case round64 (of_int n) of
        Finite y \<Rightarrow> Inr (Finite y)
      | _ \<Rightarrow> Inl OverflowError)"

definition mul_int_float :: "int \<Rightarrow> pyfloat \<Rightarrow> py_error + pyfloat" where
  "mul_int_float n x =
     (case float_of_int n of
        Inl e \<Rightarrow> Inl e
      | Inr f \<Rightarrow> Inr (fmul f x))"

definition mul_float_int :: "pyfloat \<Rightarrow> int \<Rightarrow> py_error + pyfloat" where
  "mul_float_int x n =
     (case float_of_int n of
        Inl e \<Rightarrow> Inl e
      | Inr f \<Rightarrow> Inr (fmul x f))"

subsection \<open>The position sizer\<close>

text \<open>
  \<^verbatim>\<open>
  def calculate_position_size(total_risk_dollars, stop_loss_points, point_value):
      if stop_loss_points <= 0 or point_value <= 0:
          return 0, 0.0
      risk_per_contract = stop_loss_points * point_value
      num_contracts = math.floor(total_risk_dollars / risk_per_contract)
      return int(num_contracts), risk_per_contract
  \<close>
  \<^verbatim>\<open>math.floor\<close> returns an \<^verbatim>\<open>int\<close>, so \<^verbatim>\<open>int(...)\<close> leaves it as it is.
\<close>

definition calculate_position_size ::
  "pyfloat \<Rightarrow> pyfloat \<Rightarrow> pyfloat \<Rightarrow> py_error + (int \<times> pyfloat)" where
  "calculate_position_size total_risk_dollars stop_loss_points point_value =
     (if fle stop_loss_points (Finite 0) \<or> fle point_value (Finite 0) then Inr (0, Finite 0)
      else
        let risk_per_contract = fmul stop_loss_points point_value in
        case py_truediv total_risk_dollars risk_per_contract of
          Inl e \<Rightarrow> Inl e
        | Inr ratio \<Rightarrow>
            (case math_floor ratio of
               Inl e \<Rightarrow> Inl e
             | Inr num_contracts \<Rightarrow> Inr (num_contracts, risk_per_contract)))"

subsection \<open>Derived risk figures\<close>

text \<open>
  \<^verbatim>\<open>
  contracts, risk_per_contract = calculate_position_size(risk_dollars, stop_loss_points, point_value)
  actual_risk = contracts * risk_per_contract
  ...
  risk_pct = (actual_risk / account_balance) * 100
  \<close>
\<close>

definition actual_risk :: "int \<Rightarrow> pyfloat \<Rightarrow> py_error + pyfloat" where
  "actual_risk contracts risk_per_contract = mul_int_float contracts risk_per_contract"

definition risk_pct :: "pyfloat \<Rightarrow> pyfloat \<Rightarrow> py_error + pyfloat" where
  "risk_pct risk account_balance =
     (case py_truediv risk account_balance of
        Inl e \<Rightarrow> Inl e
      | Inr q \<Rightarrow> mul_float_int q 100)"

subsection \<open>The safety warning\<close>

text \<open>
  \<^verbatim>\<open>
  RISK_WARNING_THRESHOLD = 2.0
  if risk_pct > RISK_WARNING_THRESHOLD:   st.error(...)
  elif contracts == 0:                    st.warning(...)
  else:                                   st.success(...)
  \<close>
  The three messages are the three classifications: \<open>OverThreshold\<close> is the
  \<^verbatim>\<open>st.error\<close> branch, \<open>ZeroContracts\<close> the \<^verbatim>\<open>st.warning\<close> branch and
  \<open>Acceptable\<close> the \<^verbatim>\<open>st.success\<close> branch.
\<close>

datatype classification = OverThreshold | ZeroContracts | Acceptable

definition RISK_WARNING_THRESHOLD :: pyfloat where
  "RISK_WARNING_THRESHOLD = Finite 2"

definition safety_warning :: "pyfloat \<Rightarrow> int \<Rightarrow> classification" where
  "safety_warning pct contracts =
     (if fgt pct RISK_WARNING_THRESHOLD then OverThreshold
      else if contracts = 0 then ZeroContracts
      else Acceptable)"

subsection \<open>Profit scenarios\<close>

text \<open>
  \<^verbatim>\<open>
  scenarios = []
  for r_multiple in [1, 2, 3]:
      target_points = stop_loss_points * r_multiple
      potential_profit = contracts * target_points * point_value
      scenarios.append({"Risk:Reward": f"1:{r_multiple}",
                        "Target (Points)": f"{target_points:.2f}",
                        "Potential Profit ($)": f"${potential_profit:.2f}"})
  \<close>
  A row of the table keeps the three numbers the source formats into its three strings
  (the multiple of the label \<^verbatim>\<open>1:r\<close>, the target and the profit); the rendering to
  two decimals is display only and is not modelled. The loop is a recursion over the
  list of multiples with the list built so far as accumulator, each row appended at the
  end as \<^verbatim>\<open>append\<close> does; an exception in the body ends the loop. The list of
  multiples is an argument of the loop; the script runs it on \<open>[1, 2, 3]\<close>.
\<close>

definition target_points :: "pyfloat \<Rightarrow> int \<Rightarrow> py_error + pyfloat" where
  "target_points stop_loss_points r_multiple = mul_float_int stop_loss_points r_multiple"

definition potential_profit :: "int \<Rightarrow> pyfloat \<Rightarrow> pyfloat \<Rightarrow> py_error + pyfloat" where
  "potential_profit contracts target point_value =
     (case mul_int_float contracts target of
        Inl e \<Rightarrow> Inl e
      | Inr x \<Rightarrow> Inr (fmul x point_value))"


record scenario =
  sc_multiple :: int
  sc_target_points :: pyfloat
  sc_potential_profit :: pyfloat

fun scenarios_loop ::
  "int \<Rightarrow> pyfloat \<Rightarrow> pyfloat \<Rightarrow> int list \<Rightarrow> scenario list \<Rightarrow> py_error + scenario list" where
  "scenarios_loop contracts stop_loss_points point_value [] acc = Inr acc"
| "scenarios_loop contracts stop_loss_points point_value (r_multiple # rest) acc =
     (case target_points stop_loss_points r_multiple of
        Inl e \<Rightarrow> Inl e
      | Inr target \<Rightarrow>
          (case potential_profit contracts target point_value of
             Inl e \<Rightarrow> Inl e
           | Inr profit \<Rightarrow>
               scenarios_loop contracts stop_loss_points point_value rest
                 (acc @ [\<lparr>sc_multiple = r_multiple, sc_target_points = target,
                           sc_potential_profit = profit\<rparr>])))"

definition scenarios ::
  "int \<Rightarrow> pyfloat \<Rightarrow> pyfloat \<Rightarrow> int list \<Rightarrow> py_error + scenario list" where
  "scenarios contracts stop_loss_points point_value multiples =
     scenarios_loop contracts stop_loss_points point_value multiples []"

subsection \<open>The script as a whole\<close>

text \<open>
  One run of the script, from the four numbers the widgets supply to what it displays.
  The statements run in the order of the source: the sizer, \<^verbatim>\<open>actual_risk\<close>,
  \<^verbatim>\<open>risk_pct\<close>, the warning chain, and the scenario table, which is built only under
  \<^verbatim>\<open>if contracts > 0\<close>. An exception anywhere ends the run.
\<close>

record report =
  out_contracts :: int
  out_risk_per_contract :: pyfloat
  out_actual_risk :: pyfloat
  out_risk_pct :: pyfloat
  out_message :: classification
  out_scenarios :: "scenario list option"

definition app :: "pyfloat \<Rightarrow> pyfloat \<Rightarrow> pyfloat \<Rightarrow> pyfloat \<Rightarrow> py_error + report" where
  "app account_balance point_value risk_dollars stop_loss_points =
     (case calculate_position_size risk_dollars stop_loss_points point_value of
        Inl e \<Rightarrow> Inl e
      | Inr (contracts, risk_per_contract) \<Rightarrow>
          (case actual_risk contracts risk_per_contract of
             Inl e \<Rightarrow> Inl e
           | Inr risk \<Rightarrow>
               (case risk_pct risk account_balance of
                  Inl e \<Rightarrow> Inl e
                | Inr pct \<Rightarrow>
                    (if contracts > 0 then
                       (case scenarios contracts stop_loss_points point_value [1, 2, 3] of
                          Inl e \<Rightarrow> Inl e
                        | Inr rows \<Rightarrow>
                            Inr \<lparr>out_contracts = contracts,
                                 out_risk_per_contract = risk_per_contract,
                                 out_actual_risk = risk,
                                 out_risk_pct = pct,
                                 out_message = safety_warning pct contracts,
                                 out_scenarios = Some rows\<rparr>)
                     else
                       Inr \<lparr>out_contracts = contracts,
                            out_risk_per_contract = risk_per_contract,
                            out_actual_risk = risk,
                            out_risk_pct = pct,
                            out_message = safety_warning pct contracts,
                            out_scenarios = None\<rparr>))))"

section \<open>Rounding to the nearest double\<close>

subsection \<open>Powers of two and the exponent\<close>

lemma pow2_powi: "pow2 e = 2 powi e"
  by (simp add: pow2_def power_int_def inverse_eq_divide power_one_over)

lemma pow2_pos: "0 < pow2 e"
  by (simp add: pow2_def)

lemma pow2_add: "pow2 (a + b) = pow2 a * pow2 b"
  by (simp add: pow2_powi power_int_add)

lemma pow2_mono: "a \<le> b \<Longrightarrow> pow2 a \<le> pow2 b"
  by (simp add: pow2_powi power_int_increasing)

lemma pow2_strict_mono: "a < b \<Longrightarrow> pow2 a < pow2 b"
  by (simp add: pow2_powi power_int_strict_increasing)

lemma pow2_less_iff: "pow2 a < pow2 b \<longleftrightarrow> a < b"
  by (meson pow2_mono pow2_strict_mono linorder_not_less)

lemma pow2_split52: "pow2 e = 2 ^ 52 * pow2 (e - 52)"
proof -
  have "pow2 e = pow2 (52 + (e - 52))"
    by simp
  also have "\<dots> = pow2 52 * pow2 (e - 52)"
    by (rule pow2_add)
  also have "pow2 52 = 2 ^ 52"
    by (simp add: pow2_def)
  finally show ?thesis .
qed


lemma ilog2_bounds:
  assumes "0 < x"
  shows "pow2 (ilog2 x) \<le> x \<and> x < pow2 (ilog2 x + 1)"
proof (cases "1 \<le> x")
  case True
  let ?n = "\<lfloor>x\<rfloor>"
  from True have npos: "0 < ?n"
    by simp
  from bitlen_bounds [OF npos] have lo: "2 ^ nat (bitlen ?n - 1) \<le> ?n" and hi: "?n < 2 ^ nat (bitlen ?n)"
    by simp_all
  from npos have b1: "1 \<le> bitlen ?n"
    by (simp add: bitlen_alt_def)
  have "(of_int (2 ^ nat (bitlen ?n - 1)) :: rat) \<le> of_int ?n"
    using lo by (simp only: of_int_le_iff)
  also have "\<dots> \<le> x"
    by simp
  finally have l: "pow2 (bitlen ?n - 1) \<le> x"
    using b1 by (simp add: pow2_def)
  from hi have "?n + 1 \<le> 2 ^ nat (bitlen ?n)"
    by simp
  then have "(of_int (?n + 1) :: rat) \<le> of_int (2 ^ nat (bitlen ?n))"
    by (simp only: of_int_le_iff)
  moreover have "x < of_int (?n + 1)"
    by simp linarith
  ultimately have "x < of_int (2 ^ nat (bitlen ?n))"
    by linarith
  then have h: "x < pow2 (bitlen ?n - 1 + 1)"
    using b1 by (simp add: pow2_def)
  from True l h show ?thesis
    by (simp add: ilog2_def)
next
  case False
  let ?y = "1 / x"
  let ?m = "\<lceil>?y\<rceil>"
  from False assms have y1: "1 < ?y"
    by simp
  then have m2: "2 \<le> ?m"
    by (simp add: le_ceiling_iff)
  then have mpos: "0 < ?m - 1"
    by simp
  let ?k = "bitlen (?m - 1)"
  from bitlen_bounds [OF mpos] have lo: "2 ^ nat (?k - 1) \<le> ?m - 1" and hi: "?m - 1 < 2 ^ nat ?k"
    by simp_all
  from mpos have k1: "1 \<le> ?k"
    by (simp add: bitlen_alt_def)
  have "(of_int (2 ^ nat (?k - 1)) :: rat) \<le> of_int (?m - 1)"
    using lo by (simp only: of_int_le_iff)
  moreover have "(of_int (?m - 1) :: rat) < ?y"
    using ceiling_correct [of ?y] by simp
  moreover have "(of_int (2 ^ nat (?k - 1)) :: rat) = 2 ^ nat (?k - 1)"
    by simp
  ultimately have ylo: "(2 :: rat) ^ nat (?k - 1) < ?y"
    by linarith
  from hi have "?m \<le> 2 ^ nat ?k"
    by simp
  then have "(of_int ?m :: rat) \<le> of_int (2 ^ nat ?k)"
    by (simp only: of_int_le_iff)
  moreover have "?y \<le> of_int ?m"
    by (rule le_of_int_ceiling)
  moreover have "(of_int (2 ^ nat ?k) :: rat) = 2 ^ nat ?k"
    by simp
  ultimately have yhi: "?y \<le> (2 :: rat) ^ nat ?k"
    by linarith
  from yhi assms have l: "1 / 2 ^ nat ?k \<le> x"
    by (simp add: field_simps)
  from ylo assms have h: "x < 1 / 2 ^ nat (?k - 1)"
    by (simp add: field_simps)
  have e1: "pow2 (- ?k) = 1 / 2 ^ nat ?k"
    using k1 by (simp add: pow2_def)
  have e2: "pow2 (- ?k + 1) = 1 / 2 ^ nat (?k - 1)"
    using k1 by (cases "?k = 1") (simp_all add: pow2_def)
  from False l h e1 e2 show ?thesis
    by (simp add: ilog2_def)
qed

lemma ilog2_unique:
  assumes "pow2 e \<le> x" and "x < pow2 (e + 1)"
  shows "ilog2 x = e"
proof -
  from assms(1) pow2_pos [of e] have pos: "0 < x"
    by linarith
  from ilog2_bounds [OF pos] have l: "pow2 (ilog2 x) \<le> x" and h: "x < pow2 (ilog2 x + 1)"
    by simp_all
  from l assms(2) have "pow2 (ilog2 x) < pow2 (e + 1)"
    by linarith
  then have "ilog2 x < e + 1"
    by (simp only: pow2_less_iff)
  moreover from assms(1) h have "pow2 e < pow2 (ilog2 x + 1)"
    by linarith
  then have "e < ilog2 x + 1"
    by (simp only: pow2_less_iff)
  ultimately show ?thesis
    by linarith
qed

subsection \<open>Rounding to an integer\<close>

lemma rhe_bounds:
  "\<bar>x - of_int (round_half_even x)\<bar> \<le> 1 / 2"
proof -
  have "of_int \<lfloor>x\<rfloor> \<le> x" and "x < of_int \<lfloor>x\<rfloor> + 1"
    by linarith+
  then show ?thesis
    by (auto simp add: round_half_even_def Let_def)
qed

lemma rhe_unique:
  assumes "\<bar>x - of_int n\<bar> < 1 / 2"
  shows "round_half_even x = n"
proof -
  let ?r = "round_half_even x"
  from rhe_bounds [of x] assms have "\<bar>(of_int ?r :: rat) - of_int n\<bar> < 1"
    by linarith
  then have "\<bar>(of_int (?r - n) :: rat)\<bar> < of_int 1"
    by simp
  then have "\<bar>?r - n\<bar> < 1"
    by (simp only: of_int_abs [symmetric] of_int_less_iff)
  then show ?thesis
    by linarith
qed

lemma rhe_nearest:
  assumes "\<bar>x - of_int n\<bar> < 1 / 2 \<or> (\<bar>x - of_int n\<bar> = 1 / 2 \<and> even n)"
  shows "round_half_even x = n"
  using assms
proof
  assume "\<bar>x - of_int n\<bar> < 1 / 2"
  then show ?thesis
    by (rule rhe_unique)
next
  assume tie: "\<bar>x - of_int n\<bar> = 1 / 2 \<and> even n"
  then have "x = of_int n + 1 / 2 \<or> x = of_int n - 1 / 2"
    by linarith
  then show ?thesis
  proof
    assume x: "x = of_int n + 1 / 2"
    then have "\<lfloor>x\<rfloor> = n"
      by (simp add: floor_unique)
    with x tie show ?thesis
      by (simp add: round_half_even_def Let_def)
  next
    assume x: "x = of_int n - 1 / 2"
    then have "x = of_int (n - 1) + 1 / 2"
      by simp
    then have fl: "\<lfloor>x\<rfloor> = n - 1"
      by (simp add: floor_unique)
    from tie have "odd (n - 1)"
      by simp
    with x fl show ?thesis
      by (simp add: round_half_even_def Let_def)
  qed
qed

lemma rhe_of_int: "round_half_even (of_int n) = n"
  by (rule rhe_unique) simp

lemma rhe_mono:
  assumes "x \<le> y"
  shows "round_half_even x \<le> round_half_even y"
proof (rule ccontr)
  let ?a = "round_half_even x" and ?b = "round_half_even y"
  assume "\<not> ?a \<le> ?b"
  then have ab: "?b + 1 \<le> ?a"
    by simp
  then have ab': "(of_int ?b :: rat) + 1 \<le> of_int ?a"
    by (metis of_int_1 of_int_add of_int_le_iff)
  from rhe_bounds [of x] rhe_bounds [of y] assms ab'
  have xeq: "x = of_int ?a - 1 / 2" and yeq: "y = of_int ?b + 1 / 2"
    and eq: "of_int ?a = (of_int ?b :: rat) + 1"
    by linarith+
  from eq have a: "?a = ?b + 1"
    by (metis of_int_1 of_int_add of_int_eq_iff)
  from xeq yeq eq have xy: "x = y"
    by simp
  from yeq have fl: "\<lfloor>y\<rfloor> = ?b"
    by (simp add: floor_unique)
  from fl yeq have "?b = (if even \<lfloor>y\<rfloor> then \<lfloor>y\<rfloor> else \<lfloor>y\<rfloor> + 1)"
    by (simp add: round_half_even_def Let_def)
  with a xy show False
    by (simp split: if_splits)
qed


subsection \<open>The binade and the nearest double\<close>


lemma binade_normal:
  assumes "pow2 e \<le> \<bar>x\<bar>" and "\<bar>x\<bar> < pow2 (e + 1)" and "- 1022 \<le> e"
  shows "binade x = e"
  using ilog2_unique [OF assms(1,2)] assms(3) by (simp add: binade_def)

lemma binade_subnormal:
  assumes "x \<noteq> 0" and "\<bar>x\<bar> < pow2 (- 1022)"
  shows "binade x = - 1022"
proof -
  from assms(1) have "0 < \<bar>x\<bar>"
    by simp
  from ilog2_bounds [OF this] assms(2) have "pow2 (ilog2 \<bar>x\<bar>) < pow2 (- 1022)"
    by linarith
  then have "ilog2 \<bar>x\<bar> < - 1022"
    by (simp only: pow2_less_iff)
  then show ?thesis
    by (simp add: binade_def)
qed


lemma binade_upper:
  assumes "x \<noteq> 0"
  shows "\<bar>x\<bar> < pow2 (binade x + 1)"
proof -
  from assms have "0 < \<bar>x\<bar>"
    by simp
  from ilog2_bounds [OF this] have "\<bar>x\<bar> < pow2 (ilog2 \<bar>x\<bar> + 1)"
    by simp
  also have "\<dots> \<le> pow2 (binade x + 1)"
    by (rule pow2_mono) (simp add: binade_def)
  finally show ?thesis .
qed

lemma binade_lower:
  assumes "x \<noteq> 0" and "- 1022 < binade x"
  shows "pow2 (binade x) \<le> \<bar>x\<bar>"
proof -
  from assms(2) have "binade x = ilog2 \<bar>x\<bar>"
    by (simp add: binade_def max_def split: if_splits)
  moreover from assms(1) have "0 < \<bar>x\<bar>"
    by simp
  ultimately show ?thesis
    using ilog2_bounds [of "\<bar>x\<bar>"] by simp
qed



lemma nearest_lower:
  assumes "0 < x" and "- 1022 < binade x"
  shows "pow2 (binade x) \<le> nearest x"
proof -
  let ?u = "pow2 (binade x - 52)"
  have u: "0 < ?u"
    by (rule pow2_pos)
  from assms have "x \<noteq> 0"
    by simp
  from binade_lower [OF this assms(2)] assms(1) have "pow2 (binade x) \<le> x"
    by simp
  then have "2 ^ 52 * ?u \<le> x"
    by (simp only: pow2_split52 [of "binade x"])
  with u have "2 ^ 52 \<le> x / ?u"
    by (simp add: pos_le_divide_eq)
  then have "of_int (2 ^ 52) \<le> x / ?u"
    by simp
  from rhe_mono [OF this] have "2 ^ 52 \<le> round_half_even (x / ?u)"
    by (simp only: rhe_of_int)
  then have "(of_int (2 ^ 52) :: rat) \<le> of_int (round_half_even (x / ?u))"
    by (simp only: of_int_le_iff)
  then have "of_int (2 ^ 52) * ?u \<le> of_int (round_half_even (x / ?u)) * ?u"
    by (rule mult_right_mono) (rule less_imp_le [OF u])
  then show ?thesis
    by (simp add: nearest_def ulp_def pow2_split52 [of "binade x"])
qed



subsection \<open>Computing a rounding\<close>

text \<open>
  The value of \<open>round64\<close> at a given number, from the exponent \<open>e\<close> and the
  integer \<open>n\<close> of its 53-bit significand: what is left to check is arithmetic on
  numerals.
\<close>

lemma round64_zero: "round64 0 = Finite 0"
  by (simp add: round64_def)

lemma round64_normalI:
  assumes "pow2 e \<le> \<bar>x\<bar>" and "\<bar>x\<bar> < pow2 (e + 1)" and "- 1022 \<le> e"
    and "\<bar>x / pow2 (e - 52) - of_int n\<bar> < 1 / 2 \<or>
         (\<bar>x / pow2 (e - 52) - of_int n\<bar> = 1 / 2 \<and> even n)"
    and "\<bar>of_int n * pow2 (e - 52)\<bar> < pow2 1024"
  shows "round64 x = Finite (of_int n * pow2 (e - 52))"
proof -
  from assms(1) pow2_pos [of e] have "x \<noteq> 0"
    by auto
  moreover have "nearest x = of_int n * pow2 (e - 52)"
    using binade_normal [OF assms(1,2,3)] rhe_nearest [OF assms(4)]
    by (simp add: nearest_def ulp_def)
  ultimately show ?thesis
    using assms(5) by (simp add: round64_def)
qed

lemma round64_subnormalI:
  assumes "x \<noteq> 0" and "\<bar>x\<bar> < pow2 (- 1022)"
    and "\<bar>x / pow2 (- 1074) - of_int n\<bar> < 1 / 2 \<or>
         (\<bar>x / pow2 (- 1074) - of_int n\<bar> = 1 / 2 \<and> even n)"
  shows "round64 x = Finite (of_int n * pow2 (- 1074))"
proof -
  let ?u = "pow2 (- 1074)"
  have u: "0 < ?u"
    by (rule pow2_pos)
  have nr: "nearest x = of_int n * ?u"
    using binade_subnormal [OF assms(1,2)] rhe_nearest [OF assms(3)]
    by (simp add: nearest_def ulp_def)
  from assms(3) have "\<bar>of_int n - x / ?u\<bar> \<le> 1 / 2"
    by linarith
  then have "\<bar>of_int n - x / ?u\<bar> * ?u \<le> 1 / 2 * ?u"
    by (rule mult_right_mono) (rule less_imp_le [OF u])
  then have "\<bar>(of_int n - x / ?u) * ?u\<bar> \<le> 1 / 2 * ?u"
    using u by (simp add: abs_mult)
  then have "\<bar>of_int n * ?u - x\<bar> \<le> 1 / 2 * ?u"
    using u by (simp add: left_diff_distrib)
  then have "\<bar>of_int n * ?u\<bar> \<le> \<bar>x\<bar> + 1 / 2 * ?u"
    by linarith
  also have "\<dots> < pow2 (- 1022) + 1 / 2 * ?u"
    using assms(2) by simp
  also have "\<dots> \<le> pow2 1024"
    by (simp add: pow2_def)
  finally have "\<bar>of_int n * ?u\<bar> < pow2 1024" .
  with nr assms(1) show ?thesis
    by (simp add: round64_def)
qed

lemma round64_overflowI:
  assumes "pow2 1024 \<le> x"
  shows "round64 x = PInf"
proof -
  from assms pow2_pos [of 1024] have x0: "0 < x"
    by linarith
  then have xn: "x \<noteq> 0"
    by simp
  from assms binade_upper [OF xn] x0 have "pow2 1024 < pow2 (binade x + 1)"
    by simp
  then have "1024 < binade x + 1"
    by (simp only: pow2_less_iff)
  then have e: "1024 \<le> binade x" and "- 1022 < binade x"
    by simp_all
  from nearest_lower [OF x0 this(2)] have "pow2 (binade x) \<le> nearest x" .
  moreover from e have "pow2 1024 \<le> pow2 (binade x)"
    by (rule pow2_mono)
  ultimately have "pow2 1024 \<le> \<bar>nearest x\<bar>"
    by linarith
  with x0 show ?thesis
    by (simp add: round64_def)
qed

subsection \<open>Sign and order of a rounding\<close>



section \<open>Facts about the float operations\<close>










lemma floor_rat_numeral:
  "\<lfloor>(numeral a :: rat) / numeral b\<rfloor> = numeral a div numeral b"
  using floor_divide_of_int_eq [of "numeral a" "numeral b", where ?'a = rat] by simp

lemma floor_rat_minus_numeral:
  "\<lfloor>- ((numeral a :: rat) / numeral b)\<rfloor> = - numeral a div numeral b"
  using floor_divide_of_int_eq [of "- numeral a" "numeral b", where ?'a = rat] by simp





section \<open>Facts about the script\<close>

lemma sizer_guard_path:
  assumes "fle stop_loss_points (Finite 0) \<or> fle point_value (Finite 0)"
  shows "calculate_position_size risk_dollars stop_loss_points point_value = Inr (0, Finite 0)"
  using assms by (auto simp add: calculate_position_size_def)

lemma sizer_normal_path:
  assumes "\<not> fle stop_loss_points (Finite 0)" and "\<not> fle point_value (Finite 0)"
    and "calculate_position_size risk_dollars stop_loss_points point_value = Inr (c, rpc)"
  shows "rpc = fmul stop_loss_points point_value \<and>
         (\<exists>ratio. py_truediv risk_dollars rpc = Inr ratio \<and> math_floor ratio = Inr c)"
  using assms by (auto simp add: calculate_position_size_def Let_def split: sum.splits)

lemma scenarios_loop_rows:
  assumes "scenarios_loop c s p ms acc = Inr rows"
  shows "\<exists>new. rows = acc @ new \<and> map sc_multiple new = ms \<and>
           list_all2 (\<lambda>r row. target_points s r = Inr (sc_target_points row) \<and>
                        potential_profit c (sc_target_points row) p = Inr (sc_potential_profit row))
             ms new"
  using assms
proof (induction ms arbitrary: acc)
  case Nil
  then show ?case
    by simp
next
  case (Cons r rest)
  let ?P = "\<lambda>r row. target_points s r = Inr (sc_target_points row) \<and>
                        potential_profit c (sc_target_points row) p = Inr (sc_potential_profit row)"
  show ?case
  proof (cases "target_points s r")
    case (Inl e)
    with Cons.prems show ?thesis
      by simp
  next
    case tp: (Inr target)
    show ?thesis
    proof (cases "potential_profit c target p")
      case (Inl e)
      with tp Cons.prems show ?thesis
        by simp
    next
      case pp: (Inr profit)
      let ?row = "\<lparr>sc_multiple = r, sc_target_points = target, sc_potential_profit = profit\<rparr>"
      from tp pp Cons.prems have "scenarios_loop c s p rest (acc @ [?row]) = Inr rows"
        by simp
      then have "\<exists>new. rows = (acc @ [?row]) @ new \<and> map sc_multiple new = rest \<and>
          list_all2 ?P rest new"
        by (rule Cons.IH)
      then obtain new where
        rows: "rows = (acc @ [?row]) @ new" and ms: "map sc_multiple new = rest"
        and all: "list_all2 ?P rest new"
        by (elim exE conjE)
      from rows have "rows = acc @ (?row # new)"
        by simp
      moreover from ms have "map sc_multiple (?row # new) = r # rest"
        by simp
      moreover from tp pp have "?P r ?row"
        by simp
      with all have "list_all2 ?P (r # rest) (?row # new)"
        by (simp only: list_all2_Cons)
      ultimately show ?thesis
        by (intro exI [of _ "?row # new"] conjI)
    qed
  qed
qed

lemma scenarios_loop_returns:
  assumes "float_of_int c = Inr fc" and "\<forall>r\<in>set ms. \<exists>f. float_of_int r = Inr f"
  shows "\<exists>rows. scenarios_loop c s p ms acc = Inr rows"
  using assms(2)
proof (induction ms arbitrary: acc)
  case Nil
  then show ?case
    by simp
next
  case (Cons r rest)
  from Cons.prems obtain f where f: "float_of_int r = Inr f"
    by auto
  from Cons.prems have rest: "\<forall>r\<in>set rest. \<exists>f. float_of_int r = Inr f"
    by simp
  from f assms(1) Cons.IH [OF rest] show ?case
    by (simp add: target_points_def potential_profit_def mul_float_int_def mul_int_float_def)
qed

lemma app_Inr:
  assumes "app b p t s = Inr out"
  shows "calculate_position_size t s p = Inr (out_contracts out, out_risk_per_contract out) \<and>
         actual_risk (out_contracts out) (out_risk_per_contract out) = Inr (out_actual_risk out) \<and>
         risk_pct (out_actual_risk out) b = Inr (out_risk_pct out) \<and>
         out_message out = safety_warning (out_risk_pct out) (out_contracts out) \<and>
         (if 0 < out_contracts out
          then \<exists>rows. scenarios (out_contracts out) s p [1, 2, 3] = Inr rows \<and>
                 out_scenarios out = Some rows
          else out_scenarios out = None)"
  using assms
  by (auto simp add: app_def split: sum.splits prod.splits if_splits)

lemma app_zero_balance:
  "app (Finite 0) p t s \<noteq> Inr out"
proof
  assume "app (Finite 0) p t s = Inr out"
  from app_Inr [OF this] have "risk_pct (out_actual_risk out) (Finite 0) = Inr (out_risk_pct out)"
    by simp
  then show False
    by (simp add: risk_pct_def py_truediv_def)
qed



section \<open>Roundings the runs below go through\<close>

text \<open>
  Each lemma is one operation of the source on given doubles, checked through the
  exponent and significand of the result.
\<close>

lemma lit_0_28:
  "round64 (28 / 100) = Finite (1261007895663739 / 4503599627370496)"
  using round64_normalI [of "- 2" "28 / 100" "5044031582654956"] by (simp add: pow2_def)

lemma mul_1261007895663739_4503599627370496_5:
  "fmul (Finite (1261007895663739 / 4503599627370496)) (Finite 5) = Finite (6305039478318695 / 4503599627370496)"
  using round64_normalI [of "0" "(1261007895663739 / 4503599627370496) * 5" "6305039478318695"] by (simp add: pow2_def)

lemma div_770_6305039478318695_4503599627370496:
  "py_truediv (Finite 770) (Finite (6305039478318695 / 4503599627370496)) = Inr (Finite 550)"
  using round64_normalI [of "9" "770 / (6305039478318695 / 4503599627370496)" "4837851162214400"] by (simp add: pow2_def py_truediv_def)

lemma conv_550:
  "float_of_int 550 = Inr (Finite 550)"
  using round64_normalI [of "9" "550" "4837851162214400"] by (simp add: pow2_def float_of_int_def)

lemma mul_550_6305039478318695_4503599627370496:
  "fmul (Finite 550) (Finite (6305039478318695 / 4503599627370496)) = Finite (6772991627100161 / 8796093022208)"
  using round64_normalI [of "9" "550 * (6305039478318695 / 4503599627370496)" "6772991627100161"] by (simp add: pow2_def)

lemma mul_550_1261007895663739_4503599627370496:
  "fmul (Finite 550) (Finite (1261007895663739 / 4503599627370496)) = Finite (5418393301680129 / 35184372088832)"
  using round64_normalI [of "7" "550 * (1261007895663739 / 4503599627370496)" "5418393301680129"] by (simp add: pow2_def)

lemma mul_5418393301680129_35184372088832_5:
  "fmul (Finite (5418393301680129 / 35184372088832)) (Finite 5) = Finite (6772991627100161 / 8796093022208)"
  using round64_normalI [of "9" "(5418393301680129 / 35184372088832) * 5" "6772991627100161"] by (simp add: pow2_def)

lemma lit_0_49:
  "round64 (49 / 100) = Finite (2206763817411543 / 4503599627370496)"
  using round64_normalI [of "- 2" "49 / 100" "8827055269646172"] by (simp add: pow2_def)

lemma mul_2206763817411543_4503599627370496_5:
  "fmul (Finite (2206763817411543 / 4503599627370496)) (Finite 5) = Finite (2758454771764429 / 1125899906842624)"
  using round64_normalI [of "1" "(2206763817411543 / 4503599627370496) * 5" "5516909543528858"] by (simp add: pow2_def)

lemma div_490_2758454771764429_1125899906842624:
  "py_truediv (Finite 490) (Finite (2758454771764429 / 1125899906842624)) = Inr (Finite (7036874417766399 / 35184372088832))"
  using round64_normalI [of "7" "490 / (2758454771764429 / 1125899906842624)" "7036874417766399"] by (simp add: pow2_def py_truediv_def)

lemma conv_200:
  "float_of_int 200 = Inr (Finite 200)"
  using round64_normalI [of "7" "200" "7036874417766400"] by (simp add: pow2_def float_of_int_def)

lemma mul_200_2206763817411543_4503599627370496:
  "fmul (Finite 200) (Finite (2206763817411543 / 4503599627370496)) = Finite 98"
  using round64_normalI [of "6" "200 * (2206763817411543 / 4503599627370496)" "6896136929411072"] by (simp add: pow2_def)

lemma mul_98_5:
  "fmul (Finite 98) (Finite 5) = Finite 490"
  using round64_normalI [of "8" "98 * 5" "8620171161763840"] by (simp add: pow2_def)

lemma mul_12_5:
  "fmul (Finite 12) (Finite 5) = Finite 60"
  using round64_normalI [of "5" "12 * 5" "8444249301319680"] by (simp add: pow2_def)

lemma div_m100_60:
  "py_truediv (Finite (- 100)) (Finite 60) = Inr (Finite (- (7505999378950827 / 4503599627370496)))"
  using round64_normalI [of "0" "(- 100) / 60" "- 7505999378950827"] by (simp add: pow2_def py_truediv_def)

lemma mul_12_10:
  "fmul (Finite 12) (Finite 10) = Finite 120"
  using round64_normalI [of "6" "12 * 10" "8444249301319680"] by (simp add: pow2_def)

lemma div_300_120:
  "py_truediv (Finite 300) (Finite 120) = Inr (Finite (5 / 2))"
  using round64_normalI [of "1" "300 / 120" "5629499534213120"] by (simp add: pow2_def py_truediv_def)

lemma lit_15e307:
  "round64 (15 * 10 ^ 307) = Finite 150000000000000001646859544416068312610738464515967769505216024354736378107367237305744993467742033348591874504581758773417385425614710132492460513797219069046907496754399540778546234549382838565007576699247501767640346439319417766442136793680061187184175955257676622657937704339811809909462328573145334677504"
  using round64_normalI [of "1023" "15 * 10 ^ 307" "7515631350033648"] by (simp add: pow2_def)

lemma lit_5e307:
  "round64 (5 * 10 ^ 307) = Finite 50000000000000000548953181472022770870246154838655923168405341451578792702455745768581664489247344449530624834860586257805795141871570044164153504599073023015635832251466513592848744849794279521669192233082500589213448813106472588814045597893353729061391985085892207552645901446603936636487442857715111559168"
  using round64_normalI [of "1022" "5 * 10 ^ 307" "5010420900022432"] by (simp add: pow2_def)

lemma lit_1e308:
  "round64 (10 ^ 308) = Finite 100000000000000001097906362944045541740492309677311846336810682903157585404911491537163328978494688899061249669721172515611590283743140088328307009198146046031271664502933027185697489699588559043338384466165001178426897626212945177628091195786707458122783970171784415105291802893207873272974885715430223118336"
  using round64_normalI [of "1023" "10 ^ 308" "5010420900022432"] by (simp add: pow2_def)

lemma mul_500000000000x7fc8333d40_2:
  "fmul (Finite 50000000000000000548953181472022770870246154838655923168405341451578792702455745768581664489247344449530624834860586257805795141871570044164153504599073023015635832251466513592848744849794279521669192233082500589213448813106472588814045597893353729061391985085892207552645901446603936636487442857715111559168) (Finite 2) = Finite 100000000000000001097906362944045541740492309677311846336810682903157585404911491537163328978494688899061249669721172515611590283743140088328307009198146046031271664502933027185697489699588559043338384466165001178426897626212945177628091195786707458122783970171784415105291802893207873272974885715430223118336"
  using round64_normalI [of "1023" "50000000000000000548953181472022770870246154838655923168405341451578792702455745768581664489247344449530624834860586257805795141871570044164153504599073023015635832251466513592848744849794279521669192233082500589213448813106472588814045597893353729061391985085892207552645901446603936636487442857715111559168 * 2" "5010420900022432"] by (simp add: pow2_def)

lemma div_100000000000x3ae775736b_100000000000x3ae775736b:
  "py_truediv (Finite 100000000000000001097906362944045541740492309677311846336810682903157585404911491537163328978494688899061249669721172515611590283743140088328307009198146046031271664502933027185697489699588559043338384466165001178426897626212945177628091195786707458122783970171784415105291802893207873272974885715430223118336) (Finite 100000000000000001097906362944045541740492309677311846336810682903157585404911491537163328978494688899061249669721172515611590283743140088328307009198146046031271664502933027185697489699588559043338384466165001178426897626212945177628091195786707458122783970171784415105291802893207873272974885715430223118336) = Inr (Finite 1)"
  using round64_normalI [of "0" "100000000000000001097906362944045541740492309677311846336810682903157585404911491537163328978494688899061249669721172515611590283743140088328307009198146046031271664502933027185697489699588559043338384466165001178426897626212945177628091195786707458122783970171784415105291802893207873272974885715430223118336 / 100000000000000001097906362944045541740492309677311846336810682903157585404911491537163328978494688899061249669721172515611590283743140088328307009198146046031271664502933027185697489699588559043338384466165001178426897626212945177628091195786707458122783970171784415105291802893207873272974885715430223118336" "4503599627370496"] by (simp add: pow2_def py_truediv_def)

lemma conv_1:
  "float_of_int 1 = Inr (Finite 1)"
  using round64_normalI [of "0" "1" "4503599627370496"] by (simp add: pow2_def float_of_int_def)

lemma mul_500000000000x7fc8333d40_1:
  "fmul (Finite 50000000000000000548953181472022770870246154838655923168405341451578792702455745768581664489247344449530624834860586257805795141871570044164153504599073023015635832251466513592848744849794279521669192233082500589213448813106472588814045597893353729061391985085892207552645901446603936636487442857715111559168) (Finite 1) = Finite 50000000000000000548953181472022770870246154838655923168405341451578792702455745768581664489247344449530624834860586257805795141871570044164153504599073023015635832251466513592848744849794279521669192233082500589213448813106472588814045597893353729061391985085892207552645901446603936636487442857715111559168"
  using round64_normalI [of "1022" "50000000000000000548953181472022770870246154838655923168405341451578792702455745768581664489247344449530624834860586257805795141871570044164153504599073023015635832251466513592848744849794279521669192233082500589213448813106472588814045597893353729061391985085892207552645901446603936636487442857715111559168 * 1" "5010420900022432"] by (simp add: pow2_def)

lemma mul_1_500000000000x7fc8333d40:
  "fmul (Finite 1) (Finite 50000000000000000548953181472022770870246154838655923168405341451578792702455745768581664489247344449530624834860586257805795141871570044164153504599073023015635832251466513592848744849794279521669192233082500589213448813106472588814045597893353729061391985085892207552645901446603936636487442857715111559168) = Finite 50000000000000000548953181472022770870246154838655923168405341451578792702455745768581664489247344449530624834860586257805795141871570044164153504599073023015635832251466513592848744849794279521669192233082500589213448813106472588814045597893353729061391985085892207552645901446603936636487442857715111559168"
  using round64_normalI [of "1022" "1 * 50000000000000000548953181472022770870246154838655923168405341451578792702455745768581664489247344449530624834860586257805795141871570044164153504599073023015635832251466513592848744849794279521669192233082500589213448813106472588814045597893353729061391985085892207552645901446603936636487442857715111559168" "5010420900022432"] by (simp add: pow2_def)

lemma conv_2:
  "float_of_int 2 = Inr (Finite 2)"
  using round64_normalI [of "1" "2" "4503599627370496"] by (simp add: pow2_def float_of_int_def)

lemma mul_1_100000000000x3ae775736b:
  "fmul (Finite 1) (Finite 100000000000000001097906362944045541740492309677311846336810682903157585404911491537163328978494688899061249669721172515611590283743140088328307009198146046031271664502933027185697489699588559043338384466165001178426897626212945177628091195786707458122783970171784415105291802893207873272974885715430223118336) = Finite 100000000000000001097906362944045541740492309677311846336810682903157585404911491537163328978494688899061249669721172515611590283743140088328307009198146046031271664502933027185697489699588559043338384466165001178426897626212945177628091195786707458122783970171784415105291802893207873272974885715430223118336"
  using round64_normalI [of "1023" "1 * 100000000000000001097906362944045541740492309677311846336810682903157585404911491537163328978494688899061249669721172515611590283743140088328307009198146046031271664502933027185697489699588559043338384466165001178426897626212945177628091195786707458122783970171784415105291802893207873272974885715430223118336" "5010420900022432"] by (simp add: pow2_def)

lemma mul_100000000000x3ae775736b_2:
  "fmul (Finite 100000000000000001097906362944045541740492309677311846336810682903157585404911491537163328978494688899061249669721172515611590283743140088328307009198146046031271664502933027185697489699588559043338384466165001178426897626212945177628091195786707458122783970171784415105291802893207873272974885715430223118336) (Finite 2) = PInf"
  using round64_overflowI [of "100000000000000001097906362944045541740492309677311846336810682903157585404911491537163328978494688899061249669721172515611590283743140088328307009198146046031271664502933027185697489699588559043338384466165001178426897626212945177628091195786707458122783970171784415105291802893207873272974885715430223118336 * 2"] by (simp add: pow2_def)

lemma conv_3:
  "float_of_int 3 = Inr (Finite 3)"
  using round64_normalI [of "1" "3" "6755399441055744"] by (simp add: pow2_def float_of_int_def)

lemma mul_500000000000x7fc8333d40_3:
  "fmul (Finite 50000000000000000548953181472022770870246154838655923168405341451578792702455745768581664489247344449530624834860586257805795141871570044164153504599073023015635832251466513592848744849794279521669192233082500589213448813106472588814045597893353729061391985085892207552645901446603936636487442857715111559168) (Finite 3) = Finite 150000000000000001646859544416068312610738464515967769505216024354736378107367237305744993467742033348591874504581758773417385425614710132492460513797219069046907496754399540778546234549382838565007576699247501767640346439319417766442136793680061187184175955257676622657937704339811809909462328573145334677504"
  using round64_normalI [of "1023" "50000000000000000548953181472022770870246154838655923168405341451578792702455745768581664489247344449530624834860586257805795141871570044164153504599073023015635832251466513592848744849794279521669192233082500589213448813106472588814045597893353729061391985085892207552645901446603936636487442857715111559168 * 3" "7515631350033648"] by (simp add: pow2_def)

lemma mul_1_150000000000xa7871c53fb:
  "fmul (Finite 1) (Finite 150000000000000001646859544416068312610738464515967769505216024354736378107367237305744993467742033348591874504581758773417385425614710132492460513797219069046907496754399540778546234549382838565007576699247501767640346439319417766442136793680061187184175955257676622657937704339811809909462328573145334677504) = Finite 150000000000000001646859544416068312610738464515967769505216024354736378107367237305744993467742033348591874504581758773417385425614710132492460513797219069046907496754399540778546234549382838565007576699247501767640346439319417766442136793680061187184175955257676622657937704339811809909462328573145334677504"
  using round64_normalI [of "1023" "1 * 150000000000000001646859544416068312610738464515967769505216024354736378107367237305744993467742033348591874504581758773417385425614710132492460513797219069046907496754399540778546234549382838565007576699247501767640346439319417766442136793680061187184175955257676622657937704339811809909462328573145334677504" "7515631350033648"] by (simp add: pow2_def)

lemma mul_150000000000xa7871c53fb_2:
  "fmul (Finite 150000000000000001646859544416068312610738464515967769505216024354736378107367237305744993467742033348591874504581758773417385425614710132492460513797219069046907496754399540778546234549382838565007576699247501767640346439319417766442136793680061187184175955257676622657937704339811809909462328573145334677504) (Finite 2) = PInf"
  using round64_overflowI [of "150000000000000001646859544416068312610738464515967769505216024354736378107367237305744993467742033348591874504581758773417385425614710132492460513797219069046907496754399540778546234549382838565007576699247501767640346439319417766442136793680061187184175955257676622657937704339811809909462328573145334677504 * 2"] by (simp add: pow2_def)

lemma mul_12_2:
  "fmul (Finite 12) (Finite 2) = Finite 24"
  using round64_normalI [of "4" "12 * 2" "6755399441055744"] by (simp add: pow2_def)

lemma conv_5:
  "float_of_int 5 = Inr (Finite 5)"
  using round64_normalI [of "2" "5" "5629499534213120"] by (simp add: pow2_def float_of_int_def)

lemma mul_5_24:
  "fmul (Finite 5) (Finite 24) = Finite 120"
  using round64_normalI [of "6" "5 * 24" "8444249301319680"] by (simp add: pow2_def)

lemma mul_120_5:
  "fmul (Finite 120) (Finite 5) = Finite 600"
  using round64_normalI [of "9" "120 * 5" "5277655813324800"] by (simp add: pow2_def)

lemma mul_12_3:
  "fmul (Finite 12) (Finite 3) = Finite 36"
  using round64_normalI [of "5" "12 * 3" "5066549580791808"] by (simp add: pow2_def)

lemma mul_5_36:
  "fmul (Finite 5) (Finite 36) = Finite 180"
  using round64_normalI [of "7" "5 * 36" "6333186975989760"] by (simp add: pow2_def)

lemma mul_180_5:
  "fmul (Finite 180) (Finite 5) = Finite 900"
  using round64_normalI [of "9" "180 * 5" "7916483719987200"] by (simp add: pow2_def)

lemma lit_0_31:
  "round64 (31 / 100) = Finite (5584463537939415 / 18014398509481984)"
  using round64_normalI [of "- 2" "31 / 100" "5584463537939415"] by (simp add: pow2_def)

lemma mul_5584463537939415_18014398509481984_5:
  "fmul (Finite (5584463537939415 / 18014398509481984)) (Finite 5) = Finite (6980579422424269 / 4503599627370496)"
  using round64_normalI [of "0" "(5584463537939415 / 18014398509481984) * 5" "6980579422424269"] by (simp add: pow2_def)

lemma div_10_6980579422424269_4503599627370496:
  "py_truediv (Finite 10) (Finite (6980579422424269 / 4503599627370496)) = Inr (Finite (3631935183363303 / 562949953421312))"
  using round64_normalI [of "2" "10 / (6980579422424269 / 4503599627370496)" "7263870366726606"] by (simp add: pow2_def py_truediv_def)

lemma conv_6:
  "float_of_int 6 = Inr (Finite 6)"
  using round64_normalI [of "2" "6" "6755399441055744"] by (simp add: pow2_def float_of_int_def)

lemma mul_6_6980579422424269_4503599627370496:
  "fmul (Finite 6) (Finite (6980579422424269 / 4503599627370496)) = Finite (2617717283409101 / 281474976710656)"
  using round64_normalI [of "3" "6 * (6980579422424269 / 4503599627370496)" "5235434566818202"] by (simp add: pow2_def)

lemma mul_5584463537939415_18014398509481984_1:
  "fmul (Finite (5584463537939415 / 18014398509481984)) (Finite 1) = Finite (5584463537939415 / 18014398509481984)"
  using round64_normalI [of "- 2" "(5584463537939415 / 18014398509481984) * 1" "5584463537939415"] by (simp add: pow2_def)

lemma mul_6_5584463537939415_18014398509481984:
  "fmul (Finite 6) (Finite (5584463537939415 / 18014398509481984)) = Finite (4188347653454561 / 2251799813685248)"
  using round64_normalI [of "0" "6 * (5584463537939415 / 18014398509481984)" "8376695306909122"] by (simp add: pow2_def)

lemma mul_4188347653454561_2251799813685248_5:
  "fmul (Finite (4188347653454561 / 2251799813685248)) (Finite 5) = Finite (5235434566818201 / 562949953421312)"
  using round64_normalI [of "3" "(4188347653454561 / 2251799813685248) * 5" "5235434566818201"] by (simp add: pow2_def)

lemma div_300_24:
  "py_truediv (Finite 300) (Finite 24) = Inr (Finite (25 / 2))"
  using round64_normalI [of "3" "300 / 24" "7036874417766400"] by (simp add: pow2_def py_truediv_def)

lemma conv_12:
  "float_of_int 12 = Inr (Finite 12)"
  using round64_normalI [of "3" "12" "6755399441055744"] by (simp add: pow2_def float_of_int_def)

lemma mul_12_24:
  "fmul (Finite 12) (Finite 24) = Finite 288"
  using round64_normalI [of "8" "12 * 24" "5066549580791808"] by (simp add: pow2_def)

lemma mul_12_1:
  "fmul (Finite 12) (Finite 1) = Finite 12"
  using round64_normalI [of "3" "12 * 1" "6755399441055744"] by (simp add: pow2_def)

lemma mul_12_12:
  "fmul (Finite 12) (Finite 12) = Finite 144"
  using round64_normalI [of "7" "12 * 12" "5066549580791808"] by (simp add: pow2_def)

lemma mul_144_2:
  "fmul (Finite 144) (Finite 2) = Finite 288"
  using round64_normalI [of "8" "144 * 2" "5066549580791808"] by (simp add: pow2_def)

lemma mul_100000000000x3ae775736b_10:
  "fmul (Finite 100000000000000001097906362944045541740492309677311846336810682903157585404911491537163328978494688899061249669721172515611590283743140088328307009198146046031271664502933027185697489699588559043338384466165001178426897626212945177628091195786707458122783970171784415105291802893207873272974885715430223118336) (Finite 10) = PInf"
  using round64_overflowI [of "100000000000000001097906362944045541740492309677311846336810682903157585404911491537163328978494688899061249669721172515611590283743140088328307009198146046031271664502933027185697489699588559043338384466165001178426897626212945177628091195786707458122783970171784415105291802893207873272974885715430223118336 * 10"] by (simp add: pow2_def)

lemma div_300_PInf:
  "py_truediv (Finite 300) PInf = Inr (Finite 0)"
  by (simp add: py_truediv_def)

lemma conv_0:
  "float_of_int 0 = Inr (Finite 0)"
  by (simp add: round64_zero float_of_int_def)

lemma div_NaN_25000:
  "py_truediv NaN (Finite 25000) = Inr NaN"
  by (simp add: py_truediv_def)

lemma conv_100:
  "float_of_int 100 = Inr (Finite 100)"
  using round64_normalI [of "6" "100" "7036874417766400"] by (simp add: pow2_def float_of_int_def)

lemma div_50_60:
  "py_truediv (Finite 50) (Finite 60) = Inr (Finite (7505999378950827 / 9007199254740992))"
  using round64_normalI [of "- 1" "50 / 60" "7505999378950827"] by (simp add: pow2_def py_truediv_def)

lemma mul_0_60:
  "fmul (Finite 0) (Finite 60) = Finite 0"
  by (simp add: round64_zero)

lemma div_0_25000:
  "py_truediv (Finite 0) (Finite 25000) = Inr (Finite 0)"
  by (simp add: round64_zero py_truediv_def)

lemma mul_0_100:
  "fmul (Finite 0) (Finite 100) = Finite 0"
  by (simp add: round64_zero)

lemma mul_2_120:
  "fmul (Finite 2) (Finite 120) = Finite 240"
  using round64_normalI [of "7" "2 * 120" "8444249301319680"] by (simp add: pow2_def)

lemma div_240_25000:
  "py_truediv (Finite 240) (Finite 25000) = Inr (Finite (5534023222112865 / 576460752303423488))"
  using round64_normalI [of "- 7" "240 / 25000" "5534023222112865"] by (simp add: pow2_def py_truediv_def)

lemma mul_5534023222112865_576460752303423488_100:
  "fmul (Finite (5534023222112865 / 576460752303423488)) (Finite 100) = Finite (1080863910568919 / 1125899906842624)"
  using round64_normalI [of "- 1" "(5534023222112865 / 576460752303423488) * 100" "8646911284551352"] by (simp add: pow2_def)

lemma mul_2_12:
  "fmul (Finite 2) (Finite 12) = Finite 24"
  using round64_normalI [of "4" "2 * 12" "6755399441055744"] by (simp add: pow2_def)

lemma mul_24_10:
  "fmul (Finite 24) (Finite 10) = Finite 240"
  using round64_normalI [of "7" "24 * 10" "8444249301319680"] by (simp add: pow2_def)

lemma mul_2_24:
  "fmul (Finite 2) (Finite 24) = Finite 48"
  using round64_normalI [of "5" "2 * 24" "6755399441055744"] by (simp add: pow2_def)

lemma mul_48_10:
  "fmul (Finite 48) (Finite 10) = Finite 480"
  using round64_normalI [of "8" "48 * 10" "8444249301319680"] by (simp add: pow2_def)

lemma mul_2_36:
  "fmul (Finite 2) (Finite 36) = Finite 72"
  using round64_normalI [of "6" "2 * 36" "5066549580791808"] by (simp add: pow2_def)

lemma mul_72_10:
  "fmul (Finite 72) (Finite 10) = Finite 720"
  using round64_normalI [of "9" "72 * 10" "6333186975989760"] by (simp add: pow2_def)

lemma div_240_1000:
  "py_truediv (Finite 240) (Finite 1000) = Inr (Finite (1080863910568919 / 4503599627370496))"
  using round64_normalI [of "- 3" "240 / 1000" "8646911284551352"] by (simp add: pow2_def py_truediv_def)

lemma mul_1080863910568919_4503599627370496_100:
  "fmul (Finite (1080863910568919 / 4503599627370496)) (Finite 100) = Finite 24"
  using round64_normalI [of "4" "(1080863910568919 / 4503599627370496) * 100" "6755399441055744"] by (simp add: pow2_def)

lemma mul_5_12:
  "fmul (Finite 5) (Finite 12) = Finite 60"
  using round64_normalI [of "5" "5 * 12" "8444249301319680"] by (simp add: pow2_def)

lemma mul_60_5:
  "fmul (Finite 60) (Finite 5) = Finite 300"
  using round64_normalI [of "8" "60 * 5" "5277655813324800"] by (simp add: pow2_def)

lemma div_300_60:
  "py_truediv (Finite 300) (Finite 60) = Inr (Finite 5)"
  using round64_normalI [of "2" "300 / 60" "5629499534213120"] by (simp add: pow2_def py_truediv_def)

lemma mul_5_60:
  "fmul (Finite 5) (Finite 60) = Finite 300"
  using round64_normalI [of "8" "5 * 60" "5277655813324800"] by (simp add: pow2_def)

lemma div_300_25000:
  "py_truediv (Finite 300) (Finite 25000) = Inr (Finite (3458764513820541 / 288230376151711744))"
  using round64_normalI [of "- 7" "300 / 25000" "6917529027641082"] by (simp add: pow2_def py_truediv_def)

lemma mul_3458764513820541_288230376151711744_100:
  "fmul (Finite (3458764513820541 / 288230376151711744)) (Finite 100) = Finite (5404319552844595 / 4503599627370496)"
  using round64_normalI [of "0" "(3458764513820541 / 288230376151711744) * 100" "5404319552844595"] by (simp add: pow2_def)

lemma lit_0_25:
  "round64 (25 / 100) = Finite (1 / 4)"
  using round64_normalI [of "- 2" "25 / 100" "4503599627370496"] by (simp add: pow2_def)

lemma mul_1_4_2:
  "fmul (Finite (1 / 4)) (Finite 2) = Finite (1 / 2)"
  using round64_normalI [of "- 1" "(1 / 4) * 2" "4503599627370496"] by (simp add: pow2_def)

lemma div_100000000000x3ae775736b_1_2:
  "py_truediv (Finite 100000000000000001097906362944045541740492309677311846336810682903157585404911491537163328978494688899061249669721172515611590283743140088328307009198146046031271664502933027185697489699588559043338384466165001178426897626212945177628091195786707458122783970171784415105291802893207873272974885715430223118336) (Finite (1 / 2)) = Inr PInf"
  using round64_overflowI [of "100000000000000001097906362944045541740492309677311846336810682903157585404911491537163328978494688899061249669721172515611590283743140088328307009198146046031271664502933027185697489699588559043338384466165001178426897626212945177628091195786707458122783970171784415105291802893207873272974885715430223118336 / (1 / 2)"] by (simp add: pow2_def py_truediv_def)

lemma lit_1e_200:
  "round64 (1 / 10 ^ 200) = Finite (1723641332219371 / 172364133221937103085272756482216056112753534658909761028039668631756215232006744379020625060744018369805777923479247838020220755974022884986972234404720831691332769255536872593544438018353486799545737272878084128768)"
  using round64_normalI [of "- 665" "1 / 10 ^ 200" "6894565328877484"] by (simp add: pow2_def)

lemma mul_172364133221x05bf9f02a4_172364133221x05bf9f02a4:
  "fmul (Finite (1723641332219371 / 172364133221937103085272756482216056112753534658909761028039668631756215232006744379020625060744018369805777923479247838020220755974022884986972234404720831691332769255536872593544438018353486799545737272878084128768)) (Finite (1723641332219371 / 172364133221937103085272756482216056112753534658909761028039668631756215232006744379020625060744018369805777923479247838020220755974022884986972234404720831691332769255536872593544438018353486799545737272878084128768)) = Finite 0"
  using round64_subnormalI [of "(1723641332219371 / 172364133221937103085272756482216056112753534658909761028039668631756215232006744379020625060744018369805777923479247838020220755974022884986972234404720831691332769255536872593544438018353486799545737272878084128768) * (1723641332219371 / 172364133221937103085272756482216056112753534658909761028039668631756215232006744379020625060744018369805777923479247838020220755974022884986972234404720831691332769255536872593544438018353486799545737272878084128768)" "0"] by (simp add: pow2_def)

lemma div_300_0:
  "py_truediv (Finite 300) (Finite 0) = Inl ZeroDivisionError"
  by (simp add: py_truediv_def)

lemma lit_2_72:
  "round64 (272 / 100) = Finite (6124895493223875 / 2251799813685248)"
  using round64_normalI [of "1" "272 / 100" "6124895493223875"] by (simp add: pow2_def)

lemma mul_6124895493223875_2251799813685248_5:
  "fmul (Finite (6124895493223875 / 2251799813685248)) (Finite 5) = Finite (1914029841632461 / 140737488355328)"
  using round64_normalI [of "3" "(6124895493223875 / 2251799813685248) * 5" "7656119366529844"] by (simp add: pow2_def)

lemma div_350_1914029841632461_140737488355328:
  "py_truediv (Finite 350) (Finite (1914029841632461 / 140737488355328)) = Inr (Finite (7243841312406587 / 281474976710656))"
  using round64_normalI [of "4" "350 / (1914029841632461 / 140737488355328)" "7243841312406587"] by (simp add: pow2_def py_truediv_def)

lemma conv_25:
  "float_of_int 25 = Inr (Finite 25)"
  using round64_normalI [of "4" "25" "7036874417766400"] by (simp add: pow2_def float_of_int_def)

lemma mul_25_1914029841632461_140737488355328:
  "fmul (Finite 25) (Finite (1914029841632461 / 140737488355328)) = Finite (5981343255101441 / 17592186044416)"
  using round64_normalI [of "8" "25 * (1914029841632461 / 140737488355328)" "5981343255101441"] by (simp add: pow2_def)

lemma div_5981343255101441_17592186044416_17000:
  "py_truediv (Finite (5981343255101441 / 17592186044416)) (Finite 17000) = Inr (Finite (1441151880758559 / 72057594037927936))"
  using round64_normalI [of "- 6" "(5981343255101441 / 17592186044416) / 17000" "5764607523034236"] by (simp add: pow2_def py_truediv_def)

lemma mul_1441151880758559_72057594037927936_100:
  "fmul (Finite (1441151880758559 / 72057594037927936)) (Finite 100) = Finite (4503599627370497 / 2251799813685248)"
  using round64_normalI [of "1" "(1441151880758559 / 72057594037927936) * 100" "4503599627370497"] by (simp add: pow2_def)

lemma mul_6124895493223875_2251799813685248_1:
  "fmul (Finite (6124895493223875 / 2251799813685248)) (Finite 1) = Finite (6124895493223875 / 2251799813685248)"
  using round64_normalI [of "1" "(6124895493223875 / 2251799813685248) * 1" "6124895493223875"] by (simp add: pow2_def)

lemma mul_25_6124895493223875_2251799813685248:
  "fmul (Finite 25) (Finite (6124895493223875 / 2251799813685248)) = Finite 68"
  using round64_normalI [of "6" "25 * (6124895493223875 / 2251799813685248)" "4785074604081152"] by (simp add: pow2_def)

lemma mul_68_5:
  "fmul (Finite 68) (Finite 5) = Finite 340"
  using round64_normalI [of "8" "68 * 5" "5981343255101440"] by (simp add: pow2_def)

lemma mul_6124895493223875_2251799813685248_2:
  "fmul (Finite (6124895493223875 / 2251799813685248)) (Finite 2) = Finite (6124895493223875 / 1125899906842624)"
  using round64_normalI [of "2" "(6124895493223875 / 2251799813685248) * 2" "6124895493223875"] by (simp add: pow2_def)

lemma mul_25_6124895493223875_1125899906842624:
  "fmul (Finite 25) (Finite (6124895493223875 / 1125899906842624)) = Finite 136"
  using round64_normalI [of "7" "25 * (6124895493223875 / 1125899906842624)" "4785074604081152"] by (simp add: pow2_def)

lemma mul_136_5:
  "fmul (Finite 136) (Finite 5) = Finite 680"
  using round64_normalI [of "9" "136 * 5" "5981343255101440"] by (simp add: pow2_def)

lemma mul_6124895493223875_2251799813685248_3:
  "fmul (Finite (6124895493223875 / 2251799813685248)) (Finite 3) = Finite (2296835809958953 / 281474976710656)"
  using round64_normalI [of "3" "(6124895493223875 / 2251799813685248) * 3" "4593671619917906"] by (simp add: pow2_def)

lemma mul_25_2296835809958953_281474976710656:
  "fmul (Finite 25) (Finite (2296835809958953 / 281474976710656)) = Finite 204"
  using round64_normalI [of "7" "25 * (2296835809958953 / 281474976710656)" "7177611906121728"] by (simp add: pow2_def)

lemma mul_204_5:
  "fmul (Finite 204) (Finite 5) = Finite 1020"
  using round64_normalI [of "9" "204 * 5" "8972014882652160"] by (simp add: pow2_def)

lemma rep_2:
  "representable 2"
  using round64_normalI [of "1" "2" "4503599627370496"] by (simp add: pow2_def representable_def)

lemma rep_3:
  "representable 3"
  using round64_normalI [of "1" "3" "6755399441055744"] by (simp add: pow2_def representable_def)

lemma rep_5:
  "representable 5"
  using round64_normalI [of "2" "5" "5629499534213120"] by (simp add: pow2_def representable_def)

lemma rep_12:
  "representable 12"
  using round64_normalI [of "3" "12" "6755399441055744"] by (simp add: pow2_def representable_def)

lemma rep_24:
  "representable 24"
  using round64_normalI [of "4" "24" "6755399441055744"] by (simp add: pow2_def representable_def)

lemma rep_36:
  "representable 36"
  using round64_normalI [of "5" "36" "5066549580791808"] by (simp add: pow2_def representable_def)

lemma rep_120:
  "representable 120"
  using round64_normalI [of "6" "120" "8444249301319680"] by (simp add: pow2_def representable_def)

lemma rep_144:
  "representable 144"
  using round64_normalI [of "7" "144" "5066549580791808"] by (simp add: pow2_def representable_def)

lemma rep_180:
  "representable 180"
  using round64_normalI [of "7" "180" "6333186975989760"] by (simp add: pow2_def representable_def)

lemma rep_600:
  "representable 600"
  using round64_normalI [of "9" "600" "5277655813324800"] by (simp add: pow2_def representable_def)

lemma rep_900:
  "representable 900"
  using round64_normalI [of "9" "900" "7916483719987200"] by (simp add: pow2_def representable_def)

lemmas evals =
  floor_rat_numeral floor_rat_minus_numeral
  lit_0_28 mul_1261007895663739_4503599627370496_5 div_770_6305039478318695_4503599627370496 conv_550
  mul_550_6305039478318695_4503599627370496 mul_550_1261007895663739_4503599627370496 mul_5418393301680129_35184372088832_5 lit_0_49
  mul_2206763817411543_4503599627370496_5 div_490_2758454771764429_1125899906842624 conv_200 mul_200_2206763817411543_4503599627370496
  mul_98_5 mul_12_5 div_m100_60 mul_12_10
  div_300_120 lit_15e307 lit_5e307 lit_1e308
  mul_500000000000x7fc8333d40_2 div_100000000000x3ae775736b_100000000000x3ae775736b conv_1 mul_500000000000x7fc8333d40_1
  mul_1_500000000000x7fc8333d40 conv_2 mul_1_100000000000x3ae775736b mul_100000000000x3ae775736b_2
  conv_3 mul_500000000000x7fc8333d40_3 mul_1_150000000000xa7871c53fb mul_150000000000xa7871c53fb_2
  mul_12_2 conv_5 mul_5_24 mul_120_5
  mul_12_3 mul_5_36 mul_180_5 lit_0_31
  mul_5584463537939415_18014398509481984_5 div_10_6980579422424269_4503599627370496 conv_6 mul_6_6980579422424269_4503599627370496
  mul_5584463537939415_18014398509481984_1 mul_6_5584463537939415_18014398509481984 mul_4188347653454561_2251799813685248_5 div_300_24
  conv_12 mul_12_24 mul_12_1 mul_12_12
  mul_144_2 mul_100000000000x3ae775736b_10 div_300_PInf conv_0
  div_NaN_25000 conv_100 div_50_60 mul_0_60
  div_0_25000 mul_0_100 mul_2_120 div_240_25000
  mul_5534023222112865_576460752303423488_100 mul_2_12 mul_24_10 mul_2_24
  mul_48_10 mul_2_36 mul_72_10 div_240_1000
  mul_1080863910568919_4503599627370496_100 mul_5_12 mul_60_5 div_300_60
  mul_5_60 div_300_25000 mul_3458764513820541_288230376151711744_100 lit_0_25
  mul_1_4_2 div_100000000000x3ae775736b_1_2 lit_1e_200 mul_172364133221x05bf9f02a4_172364133221x05bf9f02a4
  div_300_0 lit_2_72 mul_6124895493223875_2251799813685248_5 div_350_1914029841632461_140737488355328
  conv_25 mul_25_1914029841632461_140737488355328 div_5981343255101441_17592186044416_17000 mul_1441151880758559_72057594037927936_100
  mul_6124895493223875_2251799813685248_1 mul_25_6124895493223875_2251799813685248 mul_68_5 mul_6124895493223875_2251799813685248_2
  mul_25_6124895493223875_1125899906842624 mul_136_5 mul_6124895493223875_2251799813685248_3 mul_25_2296835809958953_281474976710656
  mul_204_5

lemmas reps =
  rep_2 rep_3 rep_5 rep_12 rep_24 rep_36
  rep_120 rep_144 rep_180 rep_600 rep_900

section \<open>Runs of the script\<close>

text \<open>
  The script on given inputs, each operation taken from the roundings above. A decimal
  input such as 0.28 is the double nearest to it, \<open>round64 (28 / 100)\<close>.
\<close>

lemma app_returns:
  assumes "calculate_position_size t s p = Inr (c, rpc)" and "float_of_int c = Inr fc"
    and "b \<noteq> Finite 0"
  shows "\<exists>out. app b p t s = Inr out"
proof -
  have "\<forall>r\<in>set [1, 2, 3]. \<exists>f. float_of_int r = Inr f"
    by (simp add: conv_1 conv_2 conv_3)
  from scenarios_loop_returns [OF assms(2) this] obtain rows where
    "scenarios c s p [1, 2, 3] = Inr rows"
    unfolding scenarios_def by blast
  with assms show ?thesis
    by (simp add: app_def actual_risk_def risk_pct_def py_truediv_def mul_int_float_def
        mul_float_int_def conv_100)
qed

lemma run_25000_5_300_12:
  "app (Finite 25000) (Finite 5) (Finite 300) (Finite 12) =
     Inr \<lparr>out_contracts = 5, out_risk_per_contract = Finite 60,
          out_actual_risk = Finite 300, out_risk_pct = Finite (5404319552844595 / 4503599627370496),
          out_message = Acceptable,
          out_scenarios = Some
     [\<lparr>sc_multiple = 1, sc_target_points = Finite 12, sc_potential_profit = Finite 300\<rparr>,
          \<lparr>sc_multiple = 2, sc_target_points = Finite 24, sc_potential_profit = Finite 600\<rparr>,
          \<lparr>sc_multiple = 3, sc_target_points = Finite 36, sc_potential_profit = Finite 900\<rparr>]\<rparr>"
  by (simp add: app_def calculate_position_size_def actual_risk_def risk_pct_def
      safety_warning_def RISK_WARNING_THRESHOLD_def fgt_def scenarios_def target_points_def
      potential_profit_def mul_int_float_def mul_float_int_def evals
      del: fmul.simps(1) fdiv.simps(1))

lemma run_25000_10_300_12:
  "app (Finite 25000) (Finite 10) (Finite 300) (Finite 12) =
     Inr \<lparr>out_contracts = 2, out_risk_per_contract = Finite 120,
          out_actual_risk = Finite 240, out_risk_pct = Finite (1080863910568919 / 1125899906842624),
          out_message = Acceptable,
          out_scenarios = Some
     [\<lparr>sc_multiple = 1, sc_target_points = Finite 12, sc_potential_profit = Finite 240\<rparr>,
          \<lparr>sc_multiple = 2, sc_target_points = Finite 24, sc_potential_profit = Finite 480\<rparr>,
          \<lparr>sc_multiple = 3, sc_target_points = Finite 36, sc_potential_profit = Finite 720\<rparr>]\<rparr>"
  by (simp add: app_def calculate_position_size_def actual_risk_def risk_pct_def
      safety_warning_def RISK_WARNING_THRESHOLD_def fgt_def scenarios_def target_points_def
      potential_profit_def mul_int_float_def mul_float_int_def evals
      del: fmul.simps(1) fdiv.simps(1))

lemma run_1000_10_300_12:
  "app (Finite 1000) (Finite 10) (Finite 300) (Finite 12) =
     Inr \<lparr>out_contracts = 2, out_risk_per_contract = Finite 120,
          out_actual_risk = Finite 240, out_risk_pct = Finite 24,
          out_message = OverThreshold,
          out_scenarios = Some
     [\<lparr>sc_multiple = 1, sc_target_points = Finite 12, sc_potential_profit = Finite 240\<rparr>,
          \<lparr>sc_multiple = 2, sc_target_points = Finite 24, sc_potential_profit = Finite 480\<rparr>,
          \<lparr>sc_multiple = 3, sc_target_points = Finite 36, sc_potential_profit = Finite 720\<rparr>]\<rparr>"
  by (simp add: app_def calculate_position_size_def actual_risk_def risk_pct_def
      safety_warning_def RISK_WARNING_THRESHOLD_def fgt_def scenarios_def target_points_def
      potential_profit_def mul_int_float_def mul_float_int_def evals
      del: fmul.simps(1) fdiv.simps(1))


lemma run_17000_5_350_2_72:
  "app (Finite 17000) (Finite 5) (Finite 350) (round64 (272 / 100)) =
     Inr \<lparr>out_contracts = 25, out_risk_per_contract = Finite (1914029841632461 / 140737488355328),
          out_actual_risk = Finite (5981343255101441 / 17592186044416), out_risk_pct = Finite (4503599627370497 / 2251799813685248),
          out_message = OverThreshold,
          out_scenarios = Some
     [\<lparr>sc_multiple = 1, sc_target_points = Finite (6124895493223875 / 2251799813685248), sc_potential_profit = Finite 340\<rparr>,
          \<lparr>sc_multiple = 2, sc_target_points = Finite (6124895493223875 / 1125899906842624), sc_potential_profit = Finite 680\<rparr>,
          \<lparr>sc_multiple = 3, sc_target_points = Finite (2296835809958953 / 281474976710656), sc_potential_profit = Finite 1020\<rparr>]\<rparr>"
  unfolding lit_2_72
  by (simp add: app_def calculate_position_size_def actual_risk_def risk_pct_def
      safety_warning_def RISK_WARNING_THRESHOLD_def fgt_def scenarios_def target_points_def
      potential_profit_def mul_int_float_def mul_float_int_def evals
      del: fmul.simps(1) fdiv.simps(1))

lemma sizer_overflow_run:
  "calculate_position_size (round64 (10 ^ 308)) (round64 (25 / 100)) (Finite 2) = Inl OverflowError"
  unfolding lit_1e308 lit_0_25
  by (simp add: calculate_position_size_def evals del: fmul.simps(1) fdiv.simps(1))

lemma sizer_zero_division_run:
  "calculate_position_size (Finite 300) (round64 (1 / 10 ^ 200)) (round64 (1 / 10 ^ 200)) =
     Inl ZeroDivisionError"
  unfolding lit_1e_200
  by (simp add: calculate_position_size_def evals del: fmul.simps(1) fdiv.simps(1))

section \<open>Properties of the position sizer\<close>

text \<open>
  Claim C1 (no over-risk): for a positive stop loss and point value the contracts returned
  satisfy \<open>contracts * stop_loss_points * point_value \<le> risk_dollars\<close>, that is,
  \<^verbatim>\<open>actual_risk\<close> never exceeds the budget. The comment in the source says the same
  (\<^verbatim>\<open>math.floor\<close> is used ``to ensure we never exceed the dollar risk limit''). The code
  misses it: on a budget of 770.0 with a stop of 0.28 points at 5.0 dollars a point the
  risk per contract is 1.4000000000000001, the quotient 770.0 / 1.4000000000000001 is
  rounded to 550.0 before the floor, and 550 contracts cost 770.0000000000001. The
  product exceeds the budget as the script computes it, as the claim's expression
  computes it from left to right, and in exact arithmetic on the same doubles.
\<close>

theorem budget_exceeded_at_770:
  "round64 (28 / 100) = Finite (1261007895663739 / 4503599627370496) \<and>
   calculate_position_size (Finite 770) (round64 (28 / 100)) (Finite 5) =
     Inr (550, Finite (6305039478318695 / 4503599627370496)) \<and>
   actual_risk 550 (Finite (6305039478318695 / 4503599627370496)) = Inr (Finite (6772991627100161 / 8796093022208)) \<and>
   flt (Finite 770) (Finite (6772991627100161 / 8796093022208)) \<and>
   potential_profit 550 (round64 (28 / 100)) (Finite 5) = Inr (Finite (6772991627100161 / 8796093022208)) \<and>
   flt (Finite 770) (Finite (6772991627100161 / 8796093022208)) \<and>
   (770 :: rat) < 550 * (1261007895663739 / 4503599627370496) * 5"
  unfolding lit_0_28
  by (simp add: calculate_position_size_def actual_risk_def potential_profit_def
      mul_int_float_def evals del: fmul.simps(1) fdiv.simps(1))




text \<open>
  Claim C3 (maximality): for a budget that is not negative and a positive stop loss and
  point value, one contract more than the sizer returns would cost more than the budget,
  \<open>risk_dollars < (contracts + 1) * stop_loss_points * point_value\<close>; the docstring
  of the source gives the count as the floor of the exact ratio. The code misses it: on
  a budget of 490.0 with a stop of 0.49 points at 5.0 dollars a point the product
  0.49 * 5.0 is rounded up to 2.4500000000000002, the quotient is 199.99999999999997,
  and 199 contracts are returned. One contract more costs 490.0 as the claim's
  expression computes it, which is not above the budget, and no more than 490 in exact
  arithmetic on the same doubles: 200 contracts fit.
\<close>

theorem undersized_at_490:
  "round64 (49 / 100) = Finite (2206763817411543 / 4503599627370496) \<and>
   calculate_position_size (Finite 490) (round64 (49 / 100)) (Finite 5) =
     Inr (199, Finite (2758454771764429 / 1125899906842624)) \<and>
   potential_profit (199 + 1) (round64 (49 / 100)) (Finite 5) = Inr (Finite 490) \<and>
   \<not> flt (Finite 490) (Finite 490) \<and>
   (199 + 1) * (2206763817411543 / 4503599627370496) * 5 \<le> (490 :: rat)"
  unfolding lit_0_49
  by (simp add: calculate_position_size_def potential_profit_def mul_int_float_def evals
      del: fmul.simps(1) fdiv.simps(1))

text \<open>
  Claim C4 (degenerate input). When the stop loss or the point value is zero or negative,
  the sizer returns the pair \<open>(0, 0.0)\<close>, whatever the budget: a result, not an
  error.
\<close>

theorem degenerate_fallback:
  assumes "fle stop_loss_points (Finite 0) \<or> fle point_value (Finite 0)"
  shows "calculate_position_size risk_dollars stop_loss_points point_value = Inr (0, Finite 0)"
  using assms
  by (auto simp add: calculate_position_size_def)

theorem degenerate_fallback_witness:
  "(fle (Finite 0) (Finite 0) \<or> fle (Finite 5) (Finite 0)) \<and>
   calculate_position_size (Finite 300) (Finite 0) (Finite 5) = Inr (0, Finite 0) \<and>
   (fle (Finite 12) (Finite 0) \<or> fle (Finite (- 2)) (Finite 0)) \<and>
   calculate_position_size (Finite 300) (Finite 12) (Finite (- 2)) = Inr (0, Finite 0)"
  using degenerate_fallback [of "Finite 0" "Finite 5" "Finite 300"]
    degenerate_fallback [of "Finite 12" "Finite (- 2)" "Finite 300"]
  by simp

section \<open>Properties of the risk evaluation\<close>

text \<open>
  Claim C5 (classification precedence). For every contract count and risk percentage, with
  the threshold at 2.0: the classification is \<open>OverThreshold\<close> exactly when the
  percentage is above 2.0, and that also with zero contracts; it is \<open>ZeroContracts\<close>
  exactly when the percentage is not above 2.0 and the count is zero; it is
  \<open>Acceptable\<close> exactly in the remaining case. The three conditions exclude one
  another, so the first branch that matches decides.
\<close>

theorem classification_precedence:
  "(safety_warning pct contracts = OverThreshold) = fgt pct (Finite 2) \<and>
   (safety_warning pct contracts = ZeroContracts) = (\<not> fgt pct (Finite 2) \<and> contracts = 0) \<and>
   (safety_warning pct contracts = Acceptable) = (\<not> fgt pct (Finite 2) \<and> contracts \<noteq> 0) \<and>
   (safety_warning pct 0 = OverThreshold) = fgt pct (Finite 2) \<and>
   RISK_WARNING_THRESHOLD = Finite 2"
  by (simp add: safety_warning_def RISK_WARNING_THRESHOLD_def)

text \<open>
  Claim C8 (the balance does not reach the contract count). Two runs of the script on the
  same budget, stop loss and point value but on different account balances display the
  same contract count, the one the sizer returns on the three shared inputs, and the same
  risk per contract, actual risk and scenario table; the balance enters only the
  percentage, which is \<^verbatim>\<open>(actual_risk / account_balance) * 100\<close> in each run.
\<close>

theorem balance_noninterference:
  assumes "app balance1 point_value risk_dollars stop_loss_points = Inr out1"
    and "app balance2 point_value risk_dollars stop_loss_points = Inr out2"
  shows "out_contracts out1 = out_contracts out2 \<and>
         calculate_position_size risk_dollars stop_loss_points point_value =
           Inr (out_contracts out1, out_risk_per_contract out1) \<and>
         out_risk_per_contract out1 = out_risk_per_contract out2 \<and>
         out_actual_risk out1 = out_actual_risk out2 \<and>
         out_scenarios out1 = out_scenarios out2 \<and>
         risk_pct (out_actual_risk out1) balance1 = Inr (out_risk_pct out1) \<and>
         risk_pct (out_actual_risk out2) balance2 = Inr (out_risk_pct out2)"
proof -
  note r1 = app_Inr [OF assms(1)] and r2 = app_Inr [OF assms(2)]
  from r1 r2 have c: "out_contracts out1 = out_contracts out2"
    and rpc: "out_risk_per_contract out1 = out_risk_per_contract out2"
    by simp_all
  from r1 r2 c rpc have risk: "out_actual_risk out1 = out_actual_risk out2"
    by simp
  from r1 r2 c have sc: "out_scenarios out1 = out_scenarios out2"
    by (cases "0 < out_contracts out2") auto
  from r1 r2 c rpc risk sc show ?thesis
    by simp
qed

theorem balance_noninterference_witness:
  "app (Finite 25000) (Finite 10) (Finite 300) (Finite 12) =
     Inr \<lparr>out_contracts = 2, out_risk_per_contract = Finite 120,
          out_actual_risk = Finite 240, out_risk_pct = Finite (1080863910568919 / 1125899906842624),
          out_message = Acceptable,
          out_scenarios = Some
     [\<lparr>sc_multiple = 1, sc_target_points = Finite 12, sc_potential_profit = Finite 240\<rparr>,
          \<lparr>sc_multiple = 2, sc_target_points = Finite 24, sc_potential_profit = Finite 480\<rparr>,
          \<lparr>sc_multiple = 3, sc_target_points = Finite 36, sc_potential_profit = Finite 720\<rparr>]\<rparr> \<and>
   app (Finite 1000) (Finite 10) (Finite 300) (Finite 12) =
     Inr \<lparr>out_contracts = 2, out_risk_per_contract = Finite 120,
          out_actual_risk = Finite 240, out_risk_pct = Finite 24,
          out_message = OverThreshold,
          out_scenarios = Some
     [\<lparr>sc_multiple = 1, sc_target_points = Finite 12, sc_potential_profit = Finite 240\<rparr>,
          \<lparr>sc_multiple = 2, sc_target_points = Finite 24, sc_potential_profit = Finite 480\<rparr>,
          \<lparr>sc_multiple = 3, sc_target_points = Finite 36, sc_potential_profit = Finite 720\<rparr>]\<rparr> \<and>
   calculate_position_size (Finite 300) (Finite 12) (Finite 10) = Inr (2, Finite 120) \<and>
   risk_pct (Finite 240) (Finite 25000) = Inr (Finite (1080863910568919 / 1125899906842624)) \<and>
   risk_pct (Finite 240) (Finite 1000) = Inr (Finite 24)"
  using balance_noninterference [OF run_25000_10_300_12 run_1000_10_300_12]
    run_25000_10_300_12 run_1000_10_300_12
  by simp




section \<open>Properties of the profit scenarios\<close>




text \<open>
  Claim C7 (scenario order). For every list of reward multiples the scenario loop produces
  one row per multiple, in the order of the list: the row of the multiple \<open>r\<close> has
  the target \<^verbatim>\<open>stop_loss_points * r\<close> and the profit
  \<^verbatim>\<open>contracts * target_points * point_value\<close> as the source computes them, and
  reading the multiples off the rows gives back the input list. The contract count and
  the multiples are \<^verbatim>\<open>int\<close>s that Python can convert to \<^verbatim>\<open>float\<close>, as 1, 2, 3 and
  every count of the sizer are.
\<close>

theorem scenario_order_preserved:
  assumes "\<exists>f. float_of_int contracts = Inr f"
    and "\<forall>r\<in>set multiples. \<exists>f. float_of_int r = Inr f"
  shows "\<exists>rows. scenarios contracts stop_loss_points point_value multiples = Inr rows \<and>
           map sc_multiple rows = multiples \<and>
           length rows = length multiples \<and>
           list_all2 (\<lambda>r row. target_points stop_loss_points r = Inr (sc_target_points row) \<and>
                        potential_profit contracts (sc_target_points row) point_value =
                          Inr (sc_potential_profit row))
             multiples rows"
proof -
  from assms(1) obtain fc where fc: "float_of_int contracts = Inr fc"
    by blast
  from scenarios_loop_returns [OF fc assms(2)] obtain rows where
    rows: "scenarios contracts stop_loss_points point_value multiples = Inr rows"
    unfolding scenarios_def by blast
  then have "scenarios_loop contracts stop_loss_points point_value multiples [] = Inr rows"
    by (simp add: scenarios_def)
  from scenarios_loop_rows [OF this] have
    ms: "map sc_multiple rows = multiples" and
    all: "list_all2 (\<lambda>r row. target_points stop_loss_points r = Inr (sc_target_points row) \<and>
                        potential_profit contracts (sc_target_points row) point_value =
                          Inr (sc_potential_profit row))
             multiples rows"
    by simp_all
  from all have "length rows = length multiples"
    by (simp add: list_all2_lengthD)
  with rows ms all show ?thesis
    by (intro exI [of _ rows] conjI)
qed

theorem scenario_order_preserved_witness:
  "(\<exists>f. float_of_int 5 = Inr f) \<and>
   (\<exists>f. float_of_int 1 = Inr f) \<and> (\<exists>f. float_of_int 2 = Inr f) \<and> (\<exists>f. float_of_int 3 = Inr f) \<and>
   scenarios 5 (Finite 12) (Finite 5) [1, 2, 3] =
     Inr [\<lparr>sc_multiple = 1, sc_target_points = Finite 12, sc_potential_profit = Finite 300\<rparr>,
          \<lparr>sc_multiple = 2, sc_target_points = Finite 24, sc_potential_profit = Finite 600\<rparr>,
          \<lparr>sc_multiple = 3, sc_target_points = Finite 36, sc_potential_profit = Finite 900\<rparr>]"
proof -
  have c: "\<exists>f. float_of_int 5 = Inr f"
    by (simp add: evals)
  have ms: "\<forall>r\<in>set [1, 2, 3]. \<exists>f. float_of_int r = Inr f"
    by (simp add: evals)
  have run: "scenarios 5 (Finite 12) (Finite 5) [1, 2, 3] =
     Inr [\<lparr>sc_multiple = 1, sc_target_points = Finite 12, sc_potential_profit = Finite 300\<rparr>,
          \<lparr>sc_multiple = 2, sc_target_points = Finite 24, sc_potential_profit = Finite 600\<rparr>,
          \<lparr>sc_multiple = 3, sc_target_points = Finite 36, sc_potential_profit = Finite 900\<rparr>]"
    by (simp add: scenarios_def target_points_def potential_profit_def mul_int_float_def
        mul_float_int_def evals del: fmul.simps(1) fdiv.simps(1))
  from scenario_order_preserved [OF c ms, of "Finite 12" "Finite 5"] run show ?thesis
    by (simp add: evals)
qed

text \<open>
  Claim C9 (the 1:1 scenario is the actual risk), as stated: for every sizing with a
  positive contract count the potential profit of the multiple 1 equals the actual risk.
  The source computes the profit as \<^verbatim>\<open>(contracts * stop_loss_points) * point_value\<close>
  and the risk as \<^verbatim>\<open>contracts * (stop_loss_points * point_value)\<close>, and the two
  roundings differ: on a budget of 10.0 with a stop of 0.31 points at 5.0 dollars a point
  there are 6 contracts, the actual risk is 9.3 and the profit of the multiple 1 is
  9.299999999999999.
\<close>

theorem rounded_products_counterexample:
  "calculate_position_size (Finite 10) (round64 (31 / 100)) (Finite 5) =
     Inr (6, Finite (6980579422424269 / 4503599627370496)) \<and>
   actual_risk 6 (Finite (6980579422424269 / 4503599627370496)) = Inr (Finite (2617717283409101 / 281474976710656)) \<and>
   target_points (round64 (31 / 100)) 1 = Inr (round64 (31 / 100)) \<and>
   potential_profit 6 (round64 (31 / 100)) (Finite 5) = Inr (Finite (5235434566818201 / 562949953421312)) \<and>
   Finite (5235434566818201 / 562949953421312) \<noteq> Finite (2617717283409101 / 281474976710656)"
  unfolding lit_0_31
  by (simp add: app_def calculate_position_size_def actual_risk_def risk_pct_def
      safety_warning_def RISK_WARNING_THRESHOLD_def fgt_def scenarios_def target_points_def
      potential_profit_def mul_int_float_def mul_float_int_def evals
      del: fmul.simps(1) fdiv.simps(1))

text \<open>
  Claim C9, amended: for every sizing with a positive contract count in which the stop
  loss and the count are doubles and the products \<open>stop_loss_points * point_value\<close>
  and \<open>contracts * stop_loss_points\<close> are computed without rounding, the target of
  the multiple 1 is the stop loss itself and the potential profit of the multiple 1
  equals the actual risk: both are the product of the three numbers, rounded once.
\<close>

theorem one_to_one_is_actual_risk:
  assumes "calculate_position_size risk_dollars (Finite s) (Finite p) = Inr (contracts, rpc)"
    and "0 < contracts"
    and "representable s" and "representable (of_int contracts)"
    and "representable (s * p)" and "representable (of_int contracts * s)"
  shows "target_points (Finite s) 1 = Inr (Finite s) \<and>
         potential_profit contracts (Finite s) (Finite p) = actual_risk contracts rpc \<and>
         actual_risk contracts rpc = Inr (round64 (of_int contracts * s * p))"
proof -
  have guard: "\<not> fle (Finite s) (Finite 0)" "\<not> fle (Finite p) (Finite 0)"
  proof -
    have "\<not> (fle (Finite s) (Finite 0) \<or> fle (Finite p) (Finite 0))"
    proof
      assume "fle (Finite s) (Finite 0) \<or> fle (Finite p) (Finite 0)"
      from sizer_guard_path [OF this] assms(1,2) show False
        by simp
    qed
    then show "\<not> fle (Finite s) (Finite 0)" and "\<not> fle (Finite p) (Finite 0)"
      by simp_all
  qed
  from sizer_normal_path [OF guard assms(1)] assms(5) have rpc: "rpc = Finite (s * p)"
    by (simp add: representable_def)
  from assms(4) have conv: "float_of_int contracts = Inr (Finite (of_int contracts))"
    by (simp add: float_of_int_def representable_def)
  from assms(3) have target: "target_points (Finite s) 1 = Inr (Finite s)"
    by (simp add: target_points_def mul_float_int_def conv_1 representable_def)
  from conv assms(6) have profit:
    "potential_profit contracts (Finite s) (Finite p) = Inr (round64 (of_int contracts * s * p))"
    by (simp add: potential_profit_def mul_int_float_def representable_def)
  from conv rpc have risk: "actual_risk contracts rpc = Inr (round64 (of_int contracts * s * p))"
    by (simp add: actual_risk_def mul_int_float_def mult.assoc)
  from target profit risk show ?thesis
    by simp
qed

theorem one_to_one_is_actual_risk_witness:
  "calculate_position_size (Finite 300) (Finite 12) (Finite 2) = Inr (12, Finite 24) \<and>
   (0 :: int) < 12 \<and> representable 12 \<and> representable (of_int 12) \<and>
   representable (12 * 2) \<and> representable (of_int 12 * 12) \<and>
   target_points (Finite 12) 1 = Inr (Finite 12) \<and>
   potential_profit 12 (Finite 12) (Finite 2) = Inr (Finite 288) \<and>
   actual_risk 12 (Finite 24) = Inr (Finite 288)"
proof -
  have run: "calculate_position_size (Finite 300) (Finite 12) (Finite 2) = Inr (12, Finite 24)"
    by (simp add: calculate_position_size_def evals del: fmul.simps(1) fdiv.simps(1))
  have pos: "(0 :: int) < 12"
    by simp
  have r: "representable 12" "representable (of_int 12)" "representable (12 * 2)"
    "representable (of_int 12 * 12)"
    by (simp_all add: reps)
  have risk: "actual_risk 12 (Finite 24) = Inr (Finite 288)"
    by (simp add: actual_risk_def mul_int_float_def evals del: fmul.simps(1) fdiv.simps(1))
  from one_to_one_is_actual_risk [OF run pos r] run risk r show ?thesis
    by simp
qed

end
